theory Spec2Isabelle
  imports Complex_Main "HOL-Library.AList"
begin

section \<open>Playback buffer (lib/audio\_buffer.py, class AudioBuffer)\<close>

text \<open>
  A frame is a Python \<open>bytes\<close> object, here a list of byte values. The buffer is the
  deque of frames, oldest first. Only the fields that \<open>add_audio\<close>, \<open>interrupt\<close>,
  \<open>reset\<close> and the synchronous head of \<open>start_playback\<close> read or write are kept;
  the handle of the playback coroutine and the output callback are not part of the state.
\<close>

type_synonym frame = "nat list"

record audio_buffer =
  max_buffer_size :: int
  buffer :: "frame list"
  total_buffered_bytes :: int
  is_playing :: bool
  interrupted :: bool
  total_bytes_played :: int
  underruns :: nat
  overruns :: nat

text \<open>Python's \<open>int(a * b / 1000)\<close> on integers: the quotient truncated towards zero.\<close>

definition int_trunc_div :: "int \<Rightarrow> int \<Rightarrow> int" where
  "int_trunc_div a b = sgn a * sgn b * (\<bar>a\<bar> div \<bar>b\<bar>)"

definition audio_buffer_init :: "int \<Rightarrow> int \<Rightarrow> audio_buffer" where
  "audio_buffer_init max_buffer_ms sample_rate =
     \<lparr>max_buffer_size = int_trunc_div (sample_rate * max_buffer_ms) 1000,
      buffer = [],
      total_buffered_bytes = 0,
      is_playing = False,
      interrupted = False,
      total_bytes_played = 0,
      underruns = 0,
      overruns = 0\<rparr>"

text \<open>
  \<open>add_audio\<close>: returns at once when interrupted; otherwise appends the frame and, when
  the byte total then exceeds \<open>max_buffer_size\<close>, pops one frame from the left (the
  source has an \<open>if\<close>, not a loop) and counts one overrun. The deque is never empty at
  the pop, since the frame was just appended.
\<close>

definition add_audio :: "frame \<Rightarrow> audio_buffer \<Rightarrow> audio_buffer" where
  "add_audio audio_data b =
     (if interrupted b then b
      else
        let b1 = b\<lparr>buffer := buffer b @ [audio_data],
                   total_buffered_bytes := total_buffered_bytes b + int (length audio_data)\<rparr>
        in if total_buffered_bytes b1 > max_buffer_size b1
           then (case buffer b1 of
                   [] \<Rightarrow> b1
                 | dropped # rest \<Rightarrow>
                     b1\<lparr>buffer := rest,
                        total_buffered_bytes := total_buffered_bytes b1 - int (length dropped),
                        overruns := overruns b1 + 1\<rparr>)
           else b1)"

definition interrupt :: "audio_buffer \<Rightarrow> audio_buffer" where
  "interrupt b = b\<lparr>interrupted := True, is_playing := False,
                   buffer := [], total_buffered_bytes := 0\<rparr>"

definition reset :: "audio_buffer \<Rightarrow> audio_buffer" where
  "reset b = b\<lparr>buffer := [], total_buffered_bytes := 0, interrupted := False,
               is_playing := False, total_bytes_played := 0\<rparr>"

text \<open>
  \<open>start_playback\<close> up to its first suspension point: nothing happens when playback is
  already running, otherwise the playing flag is set and the interrupted flag cleared.
\<close>

definition start_playback :: "audio_buffer \<Rightarrow> audio_buffer" where
  "start_playback b =
     (if is_playing b then b else b\<lparr>is_playing := True, interrupted := False\<rparr>)"

text \<open>A sequence of \<open>add_audio\<close> calls, in order.\<close>

fun add_audio_all :: "frame list \<Rightarrow> audio_buffer \<Rightarrow> audio_buffer" where
  "add_audio_all [] b = b"
| "add_audio_all (f # fs) b = add_audio_all fs (add_audio f b)"

text \<open>The byte total the counter is meant to track.\<close>

definition buffered_bytes :: "frame list \<Rightarrow> int" where
  "buffered_bytes fs = (\<Sum>f\<leftarrow>fs. int (length f))"

text \<open>
  The state a sequence of \<open>add_audio\<close> calls is meant to keep: not interrupted, the
  counter equal to the bytes held, and the bytes held within the bound.
\<close>

definition well_formed :: "audio_buffer \<Rightarrow> bool" where
  "well_formed b \<longleftrightarrow> \<not> interrupted b
     \<and> total_buffered_bytes b = buffered_bytes (buffer b)
     \<and> total_buffered_bytes b \<le> max_buffer_size b"

section \<open>Strings\<close>

text \<open>
  A Python \<open>str\<close> is modelled as a \<open>string\<close>, one \<open>char\<close> per code point, which covers
  the code points below 256. \<open>str.rstrip()\<close> and \<open>str.strip()\<close> without argument remove
  the characters for which \<open>str.isspace\<close> holds: below 256 these are the code points
  9 to 13, 28 to 32, 133 and 160.
\<close>

definition is_space :: "char \<Rightarrow> bool" where
  "is_space c \<longleftrightarrow>
     (let n = (of_char c :: nat)
      in (9 \<le> n \<and> n \<le> 13) \<or> (28 \<le> n \<and> n \<le> 32) \<or> n = 133 \<or> n = 160)"

definition rstrip :: "string \<Rightarrow> string" where
  "rstrip s = rev (dropWhile is_space (rev s))"

definition strip :: "string \<Rightarrow> string" where
  "strip s = rstrip (dropWhile is_space s)"

text \<open>\<open>s.endswith(t)\<close> for a tuple \<open>t\<close> of one-character strings, given as characters.\<close>

definition endswith_any :: "string \<Rightarrow> char list \<Rightarrow> bool" where
  "endswith_any s cs \<longleftrightarrow> s \<noteq> [] \<and> last s \<in> set cs"

section \<open>Stream coordinator (lib/streaming\_orchestrator.py, class StreamCoordinator)\<close>

text \<open>The token buffer is the Python list of the tokens received since the last flush.\<close>

record stream_coordinator =
  chunk_size :: int
  token_buffer :: "string list"
  flushed :: bool

definition stream_coordinator_init :: "int \<Rightarrow> stream_coordinator" where
  "stream_coordinator_init n = \<lparr>chunk_size = n, token_buffer = [], flushed = False\<rparr>"

text \<open>\<open>_flush_buffer\<close>: joins the buffered tokens, empties the buffer, returns the text.\<close>

definition flush_buffer :: "stream_coordinator \<Rightarrow> string \<times> stream_coordinator" where
  "flush_buffer c = (concat (token_buffer c), c\<lparr>token_buffer := []\<rparr>)"

definition add_token :: "string \<Rightarrow> stream_coordinator \<Rightarrow> string option \<times> stream_coordinator" where
  "add_token token c =
     (let c1 = c\<lparr>token_buffer := token_buffer c @ [token]\<rparr>;
          current_text = concat (token_buffer c1)
      in if int (length current_text) \<ge> chunk_size c1
           then (let (text, c2) = flush_buffer c1 in (Some text, c2))
         else if endswith_any (rstrip current_text) [CHR ''.'', CHR ''!'', CHR ''?'']
           then (let (text, c2) = flush_buffer c1 in (Some text, c2))
         else if length current_text > 100 \<and> endswith_any (rstrip current_text) [CHR '','']
           then (let (text, c2) = flush_buffer c1 in (Some text, c2))
         else (None, c1))"

definition flush :: "stream_coordinator \<Rightarrow> string option \<times> stream_coordinator" where
  "flush c =
     (if token_buffer c \<noteq> [] \<and> \<not> flushed c
      then (let (text, c2) = flush_buffer (c\<lparr>flushed := True\<rparr>) in (Some text, c2))
      else (None, c))"

text \<open>
  The flush rules as the specification words them: the buffered text itself, not the text
  with trailing whitespace removed, is tested for its last character.
\<close>

definition spec_flush_rule :: "int \<Rightarrow> string \<Rightarrow> bool" where
  "spec_flush_rule n text \<longleftrightarrow>
     int (length text) \<ge> n
     \<or> endswith_any text [CHR ''.'', CHR ''!'', CHR ''?'']
     \<or> (length text > 100 \<and> endswith_any text [CHR '',''])"

text \<open>The rule the code applies, on the text after the token was appended.\<close>

definition flush_rule :: "int \<Rightarrow> string \<Rightarrow> bool" where
  "flush_rule n text \<longleftrightarrow>
     int (length text) \<ge> n
     \<or> endswith_any (rstrip text) [CHR ''.'', CHR ''!'', CHR ''?'']
     \<or> (length text > 100 \<and> endswith_any (rstrip text) [CHR '',''])"

section \<open>Streaming pipeline (lib/streaming\_orchestrator.py, \_streaming\_pipeline)\<close>

text \<open>
  One run of the pipeline on the tokens the LLM stream yields. The LLM loop appends every
  token to \<open>response_tokens\<close>, hands it to the coordinator and sends a chunk to the TTS
  connection when the coordinator returns a non-empty one (\<open>if chunk:\<close>). After the
  stream the coordinator is flushed and the rest sent. The TTS service is outside the
  repository: \<open>tts\<close> gives the audio frames it produces for a chunk. Its frames go through
  the queue to \<open>on_audio\<close> in order until the end marker, so \<open>audio_out\<close> is every frame
  of every chunk sent. The function takes no cancellation input and reads no playback
  state; failures of the LLM or TTS connection propagate as exceptions and are not part of
  this model.
\<close>

record pipeline_result =
  response_text :: string
  tts_chunks :: "string list"
  audio_out :: "frame list"
  streaming_mode :: string

fun llm_loop ::
  "stream_coordinator \<Rightarrow> string list \<Rightarrow> string list \<Rightarrow> string list
     \<Rightarrow> stream_coordinator \<times> string list \<times> string list" where
  "llm_loop c response_tokens sent [] = (c, response_tokens, sent)"
| "llm_loop c response_tokens sent (token # rest) =
     (let (chunk, c1) = add_token token c;
          sent1 = (case chunk of
                     None \<Rightarrow> sent
                   | Some text \<Rightarrow> if text \<noteq> [] then sent @ [text] else sent)
      in llm_loop c1 (response_tokens @ [token]) sent1 rest)"

definition streaming_pipeline ::
  "int \<Rightarrow> (string \<Rightarrow> frame list) \<Rightarrow> string list \<Rightarrow> pipeline_result" where
  "streaming_pipeline stream_chunk_size tts tokens =
     (let (c, response_tokens, sent) =
            llm_loop (stream_coordinator_init stream_chunk_size) [] [] tokens;
          (final_chunk, c1) = flush c;
          sent1 = (case final_chunk of
                     None \<Rightarrow> sent
                   | Some text \<Rightarrow> if text \<noteq> [] then sent @ [text] else sent)
      in \<lparr>response_text = concat response_tokens,
          tts_chunks = sent1,
          audio_out = concat (map tts sent1),
          streaming_mode = ''concurrent''\<rparr>)"

text \<open>
  The text the specification asks for when playback stops after \<open>k\<close> frames: the chunks
  whose frames have all been played.
\<close>

fun spec_played_text :: "(string \<Rightarrow> frame list) \<Rightarrow> string list \<Rightarrow> nat \<Rightarrow> string" where
  "spec_played_text tts [] k = []"
| "spec_played_text tts (c # cs) k =
     (if length (tts c) \<le> k then c @ spec_played_text tts cs (k - length (tts c)) else [])"

section \<open>Speech queue (lib/interruption\_handler.py, class SpeechQueue)\<close>

text \<open>
  A queue element is the dictionary with the keys \<open>id\<close>, \<open>text\<close>, \<open>priority\<close> and
  \<open>queued_at\<close>. The id string \<open>speech_<n>\<close> is represented by its number \<open>n\<close>, the
  value of \<open>next_speech_id\<close> when the element was added. Clock readings (\<open>time.time()\<close>)
  are arguments, in seconds.
\<close>

record speech_item =
  item_id :: nat
  item_text :: string
  priority :: int
  queued_at :: real

record speech_queue =
  queue :: "speech_item list"
  current_speech_id :: "nat option"
  next_speech_id :: nat

definition speech_queue_init :: speech_queue where
  "speech_queue_init = \<lparr>queue = [], current_speech_id = None, next_speech_id = 0\<rparr>"

text \<open>
  \<open>add\<close>: the element is appended and the list sorted with
  \<open>sort(key=priority, reverse=True)\<close>, a stable sort into descending priority, which is
  the stable ascending sort on the negated priority.
\<close>

definition add :: "string \<Rightarrow> int \<Rightarrow> real \<Rightarrow> speech_queue \<Rightarrow> nat \<times> speech_queue" where
  "add text prio now q =
     (let speech_id = next_speech_id q;
          q1 = q\<lparr>next_speech_id := next_speech_id q + 1\<rparr>;
          q2 = q1\<lparr>queue := queue q1 @
                 [\<lparr>item_id = speech_id, item_text = text, priority = prio, queued_at = now\<rparr>]\<rparr>;
          q3 = q2\<lparr>queue := sort_key (\<lambda>x. - priority x) (queue q2)\<rparr>
      in (speech_id, q3))"


definition clear :: "speech_queue \<Rightarrow> speech_queue" where
  "clear q = q\<lparr>queue := []\<rparr>"





section \<open>Playback controller (lib/interruption\_handler.py, class AudioPlaybackController)\<close>

record playback_controller =
  audio_buffer_pc :: audio_buffer
  is_playing_pc :: bool
  current_playback_id :: "string option"
  playback_start_time :: "real option"

text \<open>\<open>interrupt\<close> of the controller: nothing happens unless the controller is playing.\<close>

definition interrupt_pc :: "playback_controller \<Rightarrow> playback_controller" where
  "interrupt_pc p =
     (if \<not> is_playing_pc p then p
      else p\<lparr>audio_buffer_pc := interrupt (audio_buffer_pc p),
             is_playing_pc := False,
             current_playback_id := None,
             playback_start_time := None\<rparr>)"

section \<open>Interruption handler (lib/interruption\_handler.py, class InterruptionHandler)\<close>

datatype interruption_state = LISTENING | PROCESSING | SPEAKING | INTERRUPTED

text \<open>
  The handler's state. The callbacks \<open>on_interruption\<close> and \<open>on_state_change\<close> are supplied
  by the caller and are not modelled. A Python \<open>Optional[float]\<close> tested with \<open>if x:\<close> is
  true when it is neither \<open>None\<close> nor zero.
\<close>

record interruption_handler =
  playback_controller_ih :: playback_controller
  state :: interruption_state
  speech_queue_ih :: speech_queue
  enabled :: bool
  min_speech_duration_ms :: int
  debounce_ms :: int
  require_confident_speech :: bool
  total_interruptions :: nat
  interruption_latencies :: "real list"
  false_positives :: nat
  last_vad_event_time :: "real option"
  speech_start_time :: "real option"

text \<open>
  The test \<open>if x: ... (current_time - x) * 1000 < limit\<close> on an optional clock reading
  \<open>x\<close>: the reading is set, not zero, and less than \<open>limit\<close> milliseconds old.
\<close>

definition set_and_within :: "real option \<Rightarrow> real \<Rightarrow> int \<Rightarrow> bool" where
  "set_and_within x current_time limit =
     (case x of
        None \<Rightarrow> False
      | Some t \<Rightarrow> t \<noteq> 0 \<and> (current_time - t) * 1000 < of_int limit)"

definition transition_state :: "interruption_state \<Rightarrow> interruption_handler \<Rightarrow> interruption_handler" where
  "transition_state new_state h = h\<lparr>state := new_state\<rparr>"

text \<open>
  \<open>_handle_barge_in\<close>, with the clock read at its start and after the transition:
  interrupt playback, clear the queue, go to INTERRUPTED, count the interruption and keep
  the last 100 latencies.
\<close>

definition handle_barge_in :: "real \<Rightarrow> real \<Rightarrow> interruption_handler \<Rightarrow> interruption_handler" where
  "handle_barge_in barge_in_start barge_in_end h =
     (let h1 = h\<lparr>playback_controller_ih := interrupt_pc (playback_controller_ih h)\<rparr>;
          h2 = h1\<lparr>speech_queue_ih := clear (speech_queue_ih h1)\<rparr>;
          h3 = transition_state INTERRUPTED h2;
          total_latency_ms = (barge_in_end - barge_in_start) * 1000;
          h4 = h3\<lparr>total_interruptions := total_interruptions h3 + 1,
                  interruption_latencies := interruption_latencies h3 @ [total_latency_ms]\<rparr>
      in if length (interruption_latencies h4) > 100
         then h4\<lparr>interruption_latencies :=
                   drop (length (interruption_latencies h4) - 100) (interruption_latencies h4)\<rparr>
         else h4)"

definition on_speech_started ::
  "real \<Rightarrow> real \<Rightarrow> real \<Rightarrow> interruption_handler \<Rightarrow> interruption_handler" where
  "on_speech_started current_time barge_in_start barge_in_end h =
     (if \<not> enabled h then h
      else if set_and_within (last_vad_event_time h) current_time (debounce_ms h)
        then h
      else
        let h1 = h\<lparr>last_vad_event_time := Some current_time,
                   speech_start_time := Some current_time\<rparr>
        in if state h1 = SPEAKING then handle_barge_in barge_in_start barge_in_end h1
           else h1)"

definition on_speech_ended :: "real \<Rightarrow> interruption_handler \<Rightarrow> interruption_handler" where
  "on_speech_ended current_time h =
     (if \<not> enabled h then h
      else
        let h1 = (if require_confident_speech h
                     \<and> set_and_within (speech_start_time h) current_time
                           (min_speech_duration_ms h)
                  then h\<lparr>false_positives := false_positives h + 1\<rparr>
                  else h)
        in h1\<lparr>speech_start_time := None\<rparr>)"

text \<open>
  A handler in the middle of an utterance: playback running with audio buffered, one
  utterance pending, the default configuration.
\<close>

definition speaking_handler :: interruption_handler where
  "speaking_handler =
     \<lparr>playback_controller_ih =
        \<lparr>audio_buffer_pc = (audio_buffer_init 500 8000)
           \<lparr>buffer := [[1, 2]], total_buffered_bytes := 2, is_playing := True\<rparr>,
         is_playing_pc = True,
         current_playback_id = Some ''p1'',
         playback_start_time = Some 99\<rparr>,
      state = SPEAKING,
      speech_queue_ih = snd (add ''next'' 0 99 speech_queue_init),
      enabled = True,
      min_speech_duration_ms = 200,
      debounce_ms = 50,
      require_confident_speech = True,
      total_interruptions = 0,
      interruption_latencies = [],
      false_positives = 0,
      last_vad_event_time = None,
      speech_start_time = None\<rparr>"

section \<open>Voice activity detection (lib/enhanced\_vad.py, class EnhancedVAD)\<close>
















section \<open>LLM context building (lib/llm\_client.py, LLMClient.\_build\_messages)\<close>

text \<open>
  A turn of the conversation context is a dictionary from strings to strings; a message
  for the API is the dictionary with exactly the keys \<open>role\<close> and \<open>content\<close>.
\<close>

type_synonym turn_dict = "string \<rightharpoonup> string"

record message =
  role :: string
  content :: string

text \<open>
  The slice \<open>xs[i:]\<close>: a negative start counts from the end and is clamped to the start
  of the list, a start beyond the end gives the empty list.
\<close>

definition slice_from :: "'a list \<Rightarrow> int \<Rightarrow> 'a list" where
  "slice_from xs i =
     (let n = int (length xs);
          j = (if i < 0 then max 0 (i + n) else min i n)
      in drop (nat j) xs)"

definition forward_turn :: "turn_dict \<Rightarrow> message option" where
  "forward_turn turn =
     (let role_opt = turn ''role'';
          text = (case turn ''content'' of None \<Rightarrow> [] | Some c \<Rightarrow> c)
      in case role_opt of
           None \<Rightarrow> None
         | Some r \<Rightarrow>
             if r \<in> set [''user'', ''assistant''] \<and> strip text \<noteq> []
             then Some \<lparr>role = r, content = text\<rparr>
             else None)"

definition build_messages :: "int \<Rightarrow> turn_dict list \<Rightarrow> string \<Rightarrow> message list" where
  "build_messages max_history_turns conversation_context user_message =
     List.map_filter forward_turn (slice_from conversation_context (- max_history_turns))
     @ [\<lparr>role = ''user'', content = user_message\<rparr>]"

text \<open>
  The window as the specification words it: the last \<open>n\<close> turns of the context, none
  when \<open>n\<close> is zero.
\<close>

definition spec_last_turns :: "int \<Rightarrow> 'a list \<Rightarrow> 'a list" where
  "spec_last_turns n xs = drop (length xs - nat n) xs"

definition spec_build_messages :: "int \<Rightarrow> turn_dict list \<Rightarrow> string \<Rightarrow> message list" where
  "spec_build_messages n conversation_context user_message =
     List.map_filter forward_turn (spec_last_turns n conversation_context)
     @ [\<lparr>role = ''user'', content = user_message\<rparr>]"

section \<open>Conversation history (lib/conversation.py)\<close>

text \<open>
  \<open>str.lower()\<close> on the code points below 256: the letters A to Z and the capital
  letters from 192 to 222, the multiplication sign 215 apart, move up by 32.
\<close>

definition lower_char :: "char \<Rightarrow> char" where
  "lower_char c =
     (let n = (of_char c :: nat)
      in if (65 \<le> n \<and> n \<le> 90) \<or> (192 \<le> n \<and> n \<le> 222 \<and> n \<noteq> 215)
         then char_of (n + 32) else c)"

definition lower :: "string \<Rightarrow> string" where
  "lower s = map lower_char s"

text \<open>\<open>sub in s\<close> on strings.\<close>

fun contains :: "string \<Rightarrow> string \<Rightarrow> bool" where
  "contains [] sub = (sub = [])"
| "contains (c # cs) sub = (take (length sub) (c # cs) = sub \<or> contains cs sub)"

definition detect_intent :: "string \<Rightarrow> string" where
  "detect_intent text =
     (let text_lower = lower text
      in if contains text_lower ''how'' \<or> contains text_lower ''what''
            \<or> contains text_lower ''why'' then ''question''
         else if contains text_lower ''do'' \<or> contains text_lower ''make''
            \<or> contains text_lower ''create'' then ''command''
         else if contains text_lower ''hello'' \<or> contains text_lower ''hi'' then ''greeting''
         else if contains text_lower ''bye'' \<or> contains text_lower ''goodbye'' then ''farewell''
         else ''statement'')"

definition analyze_sentiment :: "string \<Rightarrow> string" where
  "analyze_sentiment text =
     (let text_lower = lower text
      in if list_ex (\<lambda>word. contains text_lower word)
              [''good'', ''great'', ''excellent'', ''happy'', ''thank''] then ''positive''
         else if list_ex (\<lambda>word. contains text_lower word)
              [''bad'', ''terrible'', ''awful'', ''sad'', ''angry'', ''frustrated'']
           then ''negative''
         else ''neutral'')"

record turn =
  speaker :: string
  turn_text :: string
  timestamp :: real
  confidence :: real
  intent :: string
  sentiment :: string

text \<open>The constructor of \<open>Turn\<close>; \<open>now\<close> is its reading of the clock.\<close>

definition new_turn :: "string \<Rightarrow> string \<Rightarrow> real \<Rightarrow> real \<Rightarrow> turn" where
  "new_turn spk text conf now =
     \<lparr>speaker = spk, turn_text = text, timestamp = now, confidence = conf,
      intent = detect_intent text, sentiment = analyze_sentiment text\<rparr>"

text \<open>
  The conversation: the list of turns and the three metadata entries. The topic and the
  aggregated user sentiment and intent, which \<open>add_turn\<close> recomputes from the turns and
  which never feed back into them, are left out.
\<close>

record conversation_context =
  call_id_cc :: string
  turns :: "turn list"
  turn_count :: nat
  call_duration :: real
  last_update :: real

definition conversation_context_init :: "string \<Rightarrow> real \<Rightarrow> conversation_context" where
  "conversation_context_init cid now =
     \<lparr>call_id_cc = cid, turns = [], turn_count = 0, call_duration = 0, last_update = now\<rparr>"

text \<open>
  \<open>add_turn\<close>, with the clock read by the constructor, for the duration and for the
  update stamp. After the append only the last 10 turns are kept. The list is not empty
  where its first element is read.
\<close>

definition add_turn ::
  "string \<Rightarrow> string \<Rightarrow> real \<Rightarrow> real \<Rightarrow> real \<Rightarrow> real \<Rightarrow> conversation_context
     \<Rightarrow> conversation_context" where
  "add_turn spk text conf now now_duration now_update c =
     (let turns1 = turns c @ [new_turn spk text conf now];
          turns2 = (if length turns1 > 10 then slice_from turns1 (- 10) else turns1)
      in c\<lparr>turns := turns2,
           turn_count := length turns2,
           call_duration := (case turns2 of [] \<Rightarrow> call_duration c
                             | first # _ \<Rightarrow> now_duration - timestamp first),
           last_update := now_update\<rparr>)"

text \<open>A sequence of \<open>add_turn\<close> calls, each given as speaker, text, confidence and time.\<close>

fun add_turns :: "(string \<times> string \<times> real \<times> real) list \<Rightarrow> conversation_context
     \<Rightarrow> conversation_context" where
  "add_turns [] c = c"
| "add_turns ((spk, text, conf, now) # rest) c = add_turns rest (add_turn spk text conf now now now c)"

section \<open>Call admission (server.py)\<close>

text \<open>
  The registry \<open>active_calls\<close> is a dictionary from call control ids to call records:
  here an association list in insertion order, written through \<open>AList.update\<close> (which
  replaces the entry of a key already present and appends a new key) and
  \<open>AList.delete\<close>. Its length is the dictionary's \<open>len\<close> as long as the keys are
  distinct. The number of WebRTC connections, \<open>len(webrtc_handler._pcs_map)\<close>, belongs
  to a library outside the repository and is a field that may change between events.
  The outcome of each Telnyx API call, the fresh call id and the clock are arguments.
\<close>

record call_info =
  call_id :: string
  direction :: string
  from_number :: string
  to_number :: string
  call_control_id :: string
  started_at :: real
  status :: string
  greeting :: "string option"
  call_context :: "string option"

record server_config =
  max_concurrent_calls :: int
  telnyx_api_key :: string
  telnyx_phone_number :: string
  allowed_prefixes :: "string list"
  blocked_prefixes :: "string list"

record server_state =
  active_calls :: "(string \<times> call_info) list"
  webrtc_connections :: nat

definition server_init :: server_state where
  "server_init = \<lparr>active_calls = [], webrtc_connections = 0\<rparr>"

datatype webhook_response = StatusOk | StatusRejected | StatusError

definition startswith :: "string \<Rightarrow> string \<Rightarrow> bool" where
  "startswith s p \<longleftrightarrow> take (length p) s = p"

text \<open>
  \<open>telnyx_webhook\<close> on a \<open>call.initiated\<close> event. Only an incoming call is admitted
  here; the rejection is answered whether or not the reject call to Telnyx succeeds.
\<close>

definition webhook_call_initiated ::
  "server_config \<Rightarrow> string \<Rightarrow> string \<Rightarrow> string \<Rightarrow> string \<Rightarrow> bool \<Rightarrow> string \<Rightarrow> real
     \<Rightarrow> server_state \<Rightarrow> webhook_response \<times> server_state" where
  "webhook_call_initiated cfg dir ccid from_nr to_nr answer_ok new_id now st =
     (if dir = ''incoming'' then
        let total_active = webrtc_connections st + length (active_calls st)
        in if int total_active \<ge> max_concurrent_calls cfg then (StatusRejected, st)
           else if \<not> answer_ok then (StatusError, st)
           else (StatusOk,
                 st\<lparr>active_calls := AList.update ccid
                       \<lparr>call_id = new_id, direction = ''inbound'', from_number = from_nr,
                        to_number = to_nr, call_control_id = ccid, started_at = now,
                        status = ''answered'', greeting = None, call_context = None\<rparr>
                       (active_calls st)\<rparr>)
      else (StatusOk, st))"

text \<open>\<open>telnyx_webhook\<close> on a \<open>call.hangup\<close> event.\<close>

definition webhook_call_hangup :: "string \<Rightarrow> server_state \<Rightarrow> webhook_response \<times> server_state" where
  "webhook_call_hangup ccid st =
     (if ccid \<in> fst ` set (active_calls st)
      then (StatusOk, st\<lparr>active_calls := AList.delete ccid (active_calls st)\<rparr>)
      else (StatusOk, st))"

text \<open>
  \<open>_initiate_call\<close>. An \<open>HTTPException\<close> is the error value with its status code and
  detail; \<open>created\<close> is the call control id Telnyx returns (\<open>Inr\<close>), or the text of the
  exception the API call raises (\<open>Inl\<close>), which the source turns into status 500.
\<close>

datatype http_error = HTTPException nat string

definition initiate_call ::
  "server_config \<Rightarrow> string \<Rightarrow> string option \<Rightarrow> string \<Rightarrow> string + string \<Rightarrow> string \<Rightarrow> real
     \<Rightarrow> server_state \<Rightarrow> (http_error + call_info) \<times> server_state" where
  "initiate_call cfg to_nr greet ctx created new_id now st =
     (if telnyx_api_key cfg = [] then (Inl (HTTPException 503 ''Telnyx not configured''), st)
      else if to_nr = [] then (Inl (HTTPException 400 ''Missing 'to' number''), st)
      else if \<not> list_ex (startswith to_nr) (allowed_prefixes cfg)
        then (Inl (HTTPException 403 ''Number not in allowed prefixes''), st)
      else if list_ex (startswith to_nr) (blocked_prefixes cfg)
        then (Inl (HTTPException 403 ''Number is blocked (premium)''), st)
      else
        let total_active = webrtc_connections st + length (active_calls st)
        in if int total_active \<ge> max_concurrent_calls cfg
             then (Inl (HTTPException 429 ''Max concurrent calls reached''), st)
           else (case created of
                   Inl err \<Rightarrow> (Inl (HTTPException 500 err), st)
                 | Inr ccid \<Rightarrow>
                     (let info = \<lparr>call_id = new_id, direction = ''outbound'',
                                   from_number = telnyx_phone_number cfg, to_number = to_nr,
                                   call_control_id = ccid, started_at = now,
                                   status = ''dialing'', greeting = greet,
                                   call_context = Some ctx\<rparr>
                      in (Inr info, st\<lparr>active_calls := AList.update ccid info (active_calls st)\<rparr>))))"

text \<open>The events that touch the registry, and a run of the server over a list of them.\<close>

datatype server_event =
    IncomingCall string string string string bool string real
  | OutboundCall string "string option" string "string + string" string real
  | Hangup string
  | WebrtcChange nat
  | Shutdown

fun server_step :: "server_config \<Rightarrow> server_event \<Rightarrow> server_state \<Rightarrow> server_state" where
  "server_step cfg (IncomingCall dir ccid from_nr to_nr answer_ok new_id now) st =
     snd (webhook_call_initiated cfg dir ccid from_nr to_nr answer_ok new_id now st)"
| "server_step cfg (OutboundCall to_nr greet ctx created new_id now) st =
     snd (initiate_call cfg to_nr greet ctx created new_id now st)"
| "server_step cfg (Hangup ccid) st = snd (webhook_call_hangup ccid st)"
| "server_step cfg (WebrtcChange n) st = st\<lparr>webrtc_connections := n\<rparr>"
| "server_step cfg Shutdown st = st\<lparr>active_calls := []\<rparr>"

fun server_run :: "server_config \<Rightarrow> server_event list \<Rightarrow> server_state \<Rightarrow> server_state" where
  "server_run cfg [] st = st"
| "server_run cfg (e # es) st = server_run cfg es (server_step cfg e st)"

definition registry_within_limit :: "server_config \<Rightarrow> server_state \<Rightarrow> bool" where
  "registry_within_limit cfg st \<longleftrightarrow>
     distinct (map fst (active_calls st))
     \<and> int (length (active_calls st)) \<le> max_concurrent_calls cfg"

text \<open>
  A server limited to one concurrent call, and its state after one incoming call has been
  answered.
\<close>

definition single_call_config :: server_config where
  "single_call_config =
     \<lparr>max_concurrent_calls = 1, telnyx_api_key = ''key'', telnyx_phone_number = ''+358100'',
      allowed_prefixes = [''+358'', ''+46'', ''+1''],
      blocked_prefixes = [''+3580700'', ''+3580600'']\<rparr>"

definition one_live_call :: server_state where
  "one_live_call =
     server_run single_call_config
       [IncomingCall ''incoming'' ''cc1'' ''+35840'' ''+358100'' True ''id1'' 10] server_init"

section \<open>Properties of the playback buffer\<close>

lemma add_audio_interrupted: "interrupted b \<Longrightarrow> add_audio f b = b"
  by (simp add: add_audio_def)

lemma add_audio_all_interrupted: "interrupted b \<Longrightarrow> add_audio_all fs b = b"
  by (induction fs) (simp_all add: add_audio_interrupted)

text \<open>
  C10. After \<open>interrupt\<close> the buffer is empty with a byte total of zero, and every
  sequence of \<open>add_audio\<close> calls that follows leaves the whole state as it is (so the
  buffer stays empty and the overruns counter keeps its value); \<open>reset\<close> clears the
  interrupted flag, and so does \<open>start_playback\<close>, which finds playback stopped.
\<close>

theorem interrupt_discards_audio:
  "buffer (interrupt b) = [] \<and> total_buffered_bytes (interrupt b) = 0
   \<and> interrupted (interrupt b)
   \<and> add_audio f (interrupt b) = interrupt b
   \<and> add_audio_all fs (interrupt b) = interrupt b
   \<and> overruns (add_audio_all fs (interrupt b)) = overruns b
   \<and> buffer (add_audio_all fs (interrupt b)) = []
   \<and> \<not> interrupted (reset (interrupt b))
   \<and> \<not> interrupted (start_playback (interrupt b))"
proof -
  have i: "interrupted (interrupt b)" by (simp add: interrupt_def)
  have a: "add_audio_all fs (interrupt b) = interrupt b"
    using i by (rule add_audio_all_interrupted)
  show ?thesis
    using i a
    by (simp add: add_audio_interrupted) (simp add: interrupt_def reset_def start_playback_def)
qed

lemma add_audio_step:
  "\<not> interrupted b \<Longrightarrow>
   add_audio f b =
     (if total_buffered_bytes b + int (length f) > max_buffer_size b
      then b\<lparr>buffer := tl (buffer b @ [f]),
             total_buffered_bytes :=
               total_buffered_bytes b + int (length f) - int (length (hd (buffer b @ [f]))),
             overruns := overruns b + 1\<rparr>
      else b\<lparr>buffer := buffer b @ [f],
             total_buffered_bytes := total_buffered_bytes b + int (length f)\<rparr>)"
  by (cases "buffer b") (simp_all add: add_audio_def Let_def)

lemma tl_as_drop: "tl zs = drop 1 zs"
  by (simp add: drop_Suc)

lemma drop_drop_append:
  assumes "d \<le> (1::nat)"
  shows "drop k (drop d (xs @ [x]) @ ys) = drop (k + d) (xs @ x # ys)"
proof -
  from assms consider "d = 0" | "d = Suc 0" by linarith
  then show ?thesis
  proof cases
    case 1
    then show ?thesis by simp
  next
    case 2
    then show ?thesis by (cases xs) simp_all
  qed
qed

lemma add_audio_uniform_step:
  assumes wf: "well_formed b" and un: "\<forall>g\<in>set (buffer b). length g = length f"
  shows "well_formed (add_audio f b)
     \<and> max_buffer_size (add_audio f b) = max_buffer_size b
     \<and> (\<exists>d\<le>1. buffer (add_audio f b) = drop d (buffer b @ [f])
            \<and> overruns (add_audio f b) = overruns b + d)"
proof (cases "total_buffered_bytes b + int (length f) > max_buffer_size b")
  case True
  have ni: "\<not> interrupted b" using wf by (simp add: well_formed_def)
  have hdlen: "length (hd (buffer b @ [f])) = length f"
    using un by (cases "buffer b") simp_all
  have bb: "buffered_bytes (tl (buffer b @ [f])) = buffered_bytes (buffer b)"
    using un by (cases "buffer b") (simp_all add: buffered_bytes_def)
  have "well_formed (add_audio f b)"
    using wf True hdlen bb by (simp add: add_audio_step [OF ni] well_formed_def)
  moreover have "max_buffer_size (add_audio f b) = max_buffer_size b"
    using True by (simp add: add_audio_step [OF ni])
  moreover have "buffer (add_audio f b) = tl (buffer b @ [f])"
    using True by (simp add: add_audio_step [OF ni])
  then have "buffer (add_audio f b) = drop 1 (buffer b @ [f])"
    by (simp only: tl_as_drop)
  moreover have "overruns (add_audio f b) = overruns b + 1"
    using True by (simp add: add_audio_step [OF ni])
  ultimately show ?thesis by blast
next
  case False
  have ni: "\<not> interrupted b" using wf by (simp add: well_formed_def)
  have "well_formed (add_audio f b)"
    using wf False by (simp add: add_audio_step [OF ni] well_formed_def buffered_bytes_def)
  moreover have "max_buffer_size (add_audio f b) = max_buffer_size b"
    using False by (simp add: add_audio_step [OF ni])
  moreover have "buffer (add_audio f b) = drop 0 (buffer b @ [f])
       \<and> overruns (add_audio f b) = overruns b + 0"
    using False by (simp add: add_audio_step [OF ni])
  ultimately show ?thesis by blast
qed

text \<open>
  With frames of one common length the bound is kept: starting from a buffer that is not
  interrupted, whose counter is exact and within \<open>max_buffer_size\<close>, the counter stays
  exact and within the bound, the frames kept are the newest ones (the \<open>k\<close> oldest were
  dropped, at most one per call), and \<open>overruns\<close> grows by exactly \<open>k\<close>.
\<close>

lemma add_audio_uniform_frames:
  assumes "well_formed b" "\<forall>g\<in>set (buffer b @ fs). length g = n"
  shows "well_formed (add_audio_all fs b)
     \<and> max_buffer_size (add_audio_all fs b) = max_buffer_size b
     \<and> (\<exists>k\<le>length fs. buffer (add_audio_all fs b) = drop k (buffer b @ fs)
            \<and> overruns (add_audio_all fs b) = overruns b + k)"
  using assms
proof (induction fs arbitrary: b)
  case Nil
  then show ?case by simp
next
  case (Cons f fs)
  let ?b1 = "add_audio f b"
  have un: "\<forall>g\<in>set (buffer b). length g = length f" using Cons.prems(2) by simp
  from add_audio_uniform_step [OF Cons.prems(1) un]
  obtain d where wf1: "well_formed ?b1" and mx: "max_buffer_size ?b1 = max_buffer_size b"
    and d: "d \<le> 1" and bd: "buffer ?b1 = drop d (buffer b @ [f])"
    and ov: "overruns ?b1 = overruns b + d" by blast
  have "set (buffer ?b1) \<subseteq> set (buffer b @ [f])" unfolding bd by (rule set_drop_subset)
  then have un1: "\<forall>g\<in>set (buffer ?b1 @ fs). length g = n" using Cons.prems(2) by auto
  from Cons.IH [OF wf1 un1]
  obtain k where wf: "well_formed (add_audio_all fs ?b1)"
    and mx2: "max_buffer_size (add_audio_all fs ?b1) = max_buffer_size ?b1"
    and k: "k \<le> length fs" and bk: "buffer (add_audio_all fs ?b1) = drop k (buffer ?b1 @ fs)"
    and ov2: "overruns (add_audio_all fs ?b1) = overruns ?b1 + k" by blast
  have dd: "drop k (drop d (buffer b @ [f]) @ fs) = drop (k + d) (buffer b @ f # fs)"
    using d by (rule drop_drop_append)
  have "well_formed (add_audio_all (f # fs) b)" using wf by simp
  moreover have "max_buffer_size (add_audio_all (f # fs) b) = max_buffer_size b"
    using mx mx2 by simp
  moreover have "k + d \<le> length (f # fs)" using k d by simp
  moreover have "buffer (add_audio_all (f # fs) b) = drop (k + d) (buffer b @ f # fs)"
    using bk bd dd by simp
  moreover have "overruns (add_audio_all (f # fs) b) = overruns b + (k + d)"
    using ov ov2 by simp
  ultimately show ?case by blast
qed

text \<open>
  C3 on frames of differing lengths. With the default buffer (500 ms at 8 kHz, 4000
  bytes) and frames of 100, 3900 and 200 bytes, the third call finds 4200 bytes, drops the
  oldest frame only and returns with 4100 bytes buffered, above \<open>max_buffer_size\<close>; one
  overrun is counted for the one frame dropped.
\<close>

theorem add_audio_exceeds_bound:
  "(let b = add_audio_all [replicate 100 0, replicate 3900 0, replicate 200 0]
              (audio_buffer_init 500 8000)
    in max_buffer_size b = 4000
     \<and> total_buffered_bytes b = 4100
     \<and> buffer b = [replicate 3900 0, replicate 200 0]
     \<and> overruns b = 1
     \<and> total_buffered_bytes b > max_buffer_size b)"
  by (simp add: add_audio_def audio_buffer_init_def int_trunc_div_def Let_def)

section \<open>Properties of the stream coordinator and the pipeline\<close>

lemma add_token_result:
  "add_token t c =
     (if flush_rule (chunk_size c) (concat (token_buffer c @ [t]))
      then (Some (concat (token_buffer c @ [t])), c\<lparr>token_buffer := []\<rparr>)
      else (None, c\<lparr>token_buffer := token_buffer c @ [t]\<rparr>))"
  by (simp add: add_token_def flush_rule_def flush_buffer_def Let_def)

text \<open>
  C5 as stated fails: with the token \<open>''Hi. ''\<close> (a full stop followed by a space) the
  coordinator returns a chunk, though the buffered text is shorter than 512 characters and
  ends with a space, so that none of the three rules as worded holds.
\<close>

theorem add_token_rules_counterexample:
  "fst (add_token ''Hi. '' (stream_coordinator_init 512)) = Some ''Hi. ''
   \<and> \<not> spec_flush_rule 512 (concat (token_buffer (stream_coordinator_init 512) @ [''Hi. '']))"
  by (simp add: add_token_result flush_rule_def spec_flush_rule_def stream_coordinator_init_def
        rstrip_def is_space_def endswith_any_def)

text \<open>
  C5, amended. \<open>add_token\<close> returns a chunk exactly when, after appending the token, the
  buffered text is at least \<open>chunk_size\<close> long, or the text with trailing whitespace
  removed ends with a full stop, exclamation mark or question mark, or the text is longer
  than 100 characters and, with trailing whitespace removed, ends with a comma. The chunk
  is the whole buffered text and the buffer is empty afterwards; without a chunk the token
  stays buffered. \<open>flush\<close> returns the buffered text when there is some and no flush has
  returned text before; a second \<open>flush\<close> returns nothing, nor does any \<open>flush\<close> after
  the flag is set.
\<close>

theorem add_token_flush_rules:
  "fst (add_token t c) =
     (if flush_rule (chunk_size c) (concat (token_buffer c @ [t]))
      then Some (concat (token_buffer c @ [t])) else None)
   \<and> (fst (add_token t c) \<noteq> None \<longrightarrow> token_buffer (snd (add_token t c)) = [])
   \<and> (fst (add_token t c) = None \<longrightarrow> token_buffer (snd (add_token t c)) = token_buffer c @ [t])
   \<and> fst (flush c) =
       (if token_buffer c \<noteq> [] \<and> \<not> flushed c then Some (concat (token_buffer c)) else None)
   \<and> fst (flush (snd (flush c))) = None
   \<and> (flushed c \<longrightarrow> flushed (snd (add_token t c)) \<and> fst (flush (snd (add_token t c))) = None)"
  by (simp add: add_token_result flush_def flush_buffer_def)

theorem add_token_flush_rules_witness:
  "fst (add_token ''Hi. '' (stream_coordinator_init 512)) = Some ''Hi. ''
   \<and> fst (add_token ''Hi'' (stream_coordinator_init 512)) = None
   \<and> token_buffer (snd (add_token ''Hi'' (stream_coordinator_init 512))) = [''Hi'']"
  using add_token_flush_rules [of "''Hi. ''" "stream_coordinator_init 512"]
        add_token_flush_rules [of "''Hi''" "stream_coordinator_init 512"]
  by (simp add: flush_rule_def stream_coordinator_init_def rstrip_def is_space_def
        endswith_any_def)

lemma llm_loop_tokens: "fst (snd (llm_loop c rt sent ts)) = rt @ ts"
  by (induction ts arbitrary: c rt sent) (simp_all add: Let_def split: prod.splits)

text \<open>
  C1 as stated fails. The tokens \<open>''Hi.''\<close> and \<open>'' Bye.''\<close> make two chunks; with a TTS
  that yields one frame per chunk two frames go out. When playback stops after the first
  frame, the text played is \<open>''Hi.''\<close>, but the run records \<open>''Hi. Bye.''\<close>.
\<close>

theorem pipeline_played_prefix_counterexample:
  "(let r = streaming_pipeline 512 (\<lambda>c. [map of_char c]) [''Hi.'', '' Bye.'']
    in length (audio_out r) = 2 \<and> tts_chunks r = [''Hi.'', '' Bye.'']
     \<and> spec_played_text (\<lambda>c. [map of_char c]) (tts_chunks r) 1 = ''Hi.''
     \<and> response_text r = ''Hi. Bye.''
     \<and> response_text r \<noteq> spec_played_text (\<lambda>c. [map of_char c]) (tts_chunks r) 1)"
  by (simp add: streaming_pipeline_def add_token_result flush_def flush_buffer_def
        flush_rule_def stream_coordinator_init_def rstrip_def is_space_def endswith_any_def
        Let_def)

text \<open>
  C1, amended. The text a pipeline run records is the concatenation of all tokens the LLM
  stream produced on that run, whatever the TTS produced and however many of its frames
  were played: the run has no input for cancellation or playback progress.
\<close>

theorem pipeline_records_full_text:
  "response_text (streaming_pipeline n tts tokens) = concat tokens"
  using llm_loop_tokens [of "stream_coordinator_init n" "[]" "[]" tokens]
  by (auto simp: streaming_pipeline_def Let_def split: prod.splits)


section \<open>Properties of the speech queue\<close>











section \<open>Properties of the interruption handler\<close>

lemma handle_barge_in_fields:
  "state (handle_barge_in t1 t2 h) = INTERRUPTED
   \<and> speech_queue_ih (handle_barge_in t1 t2 h) = clear (speech_queue_ih h)
   \<and> playback_controller_ih (handle_barge_in t1 t2 h) = interrupt_pc (playback_controller_ih h)
   \<and> total_interruptions (handle_barge_in t1 t2 h) = total_interruptions h + 1
   \<and> false_positives (handle_barge_in t1 t2 h) = false_positives h
   \<and> speech_start_time (handle_barge_in t1 t2 h) = speech_start_time h
   \<and> enabled (handle_barge_in t1 t2 h) = enabled h
   \<and> require_confident_speech (handle_barge_in t1 t2 h) = require_confident_speech h
   \<and> min_speech_duration_ms (handle_barge_in t1 t2 h) = min_speech_duration_ms h"
  by (simp add: handle_barge_in_def transition_state_def Let_def)

text \<open>
  C2 as stated fails. Speech starts at 100 s while the handler is SPEAKING and ends 50 ms
  later, below the minimum of 200 ms: the barge-in path has run at the start event
  (playback interrupted, queue cleared, state INTERRUPTED, one interruption counted), and
  the end event counts the false positive on top of it.
\<close>

theorem short_speech_barge_in_counterexample:
  "(let h1 = on_speech_started 100 100 (100001 / 1000) speaking_handler;
        h2 = on_speech_ended (10005 / 100) h1
    in queue (speech_queue_ih speaking_handler) \<noteq> []
     \<and> state h1 = INTERRUPTED
     \<and> queue (speech_queue_ih h1) = []
     \<and> interrupted (audio_buffer_pc (playback_controller_ih h1))
     \<and> buffer (audio_buffer_pc (playback_controller_ih h1)) = []
     \<and> total_interruptions h1 = 1
     \<and> false_positives h2 = 1
     \<and> state h2 = INTERRUPTED
     \<and> queue (speech_queue_ih h2) = [])"
  by (simp add: speaking_handler_def on_speech_started_def on_speech_ended_def
        handle_barge_in_fields set_and_within_def clear_def interrupt_pc_def interrupt_def
        add_def speech_queue_init_def Let_def)

text \<open>
  C2, amended. A \<open>speech_started\<close> event that reaches the enabled handler in state
  SPEAKING and is not debounced enters the barge-in path at once, before the length of
  the interval is known: the playback controller is interrupted (its buffer emptied when
  it was playing), the queue cleared, the state INTERRUPTED and the interruption counted.
  When the interval then ends before \<open>min_speech_duration_ms\<close> with
  \<open>require_confident_speech\<close> set, one false positive is counted and the barge-in stays
  in effect.
\<close>

theorem speech_started_barge_in:
  assumes "enabled h" "state h = SPEAKING"
    "\<not> set_and_within (last_vad_event_time h) now (debounce_ms h)"
  shows "(let h1 = on_speech_started now t1 t2 h
          in state h1 = INTERRUPTED
           \<and> queue (speech_queue_ih h1) = []
           \<and> playback_controller_ih h1 = interrupt_pc (playback_controller_ih h)
           \<and> (is_playing_pc (playback_controller_ih h) \<longrightarrow>
                interrupted (audio_buffer_pc (playback_controller_ih h1))
                \<and> buffer (audio_buffer_pc (playback_controller_ih h1)) = [])
           \<and> total_interruptions h1 = total_interruptions h + 1
           \<and> false_positives h1 = false_positives h
           \<and> (require_confident_speech h \<and> now \<noteq> 0
                \<and> (t_end - now) * 1000 < of_int (min_speech_duration_ms h) \<longrightarrow>
                (let h2 = on_speech_ended t_end h1
                 in false_positives h2 = false_positives h + 1
                  \<and> state h2 = INTERRUPTED
                  \<and> queue (speech_queue_ih h2) = []
                  \<and> playback_controller_ih h2 = playback_controller_ih h1
                  \<and> total_interruptions h2 = total_interruptions h1)))"
  using assms
  by (simp add: on_speech_started_def on_speech_ended_def handle_barge_in_fields
        set_and_within_def clear_def interrupt_pc_def interrupt_def Let_def)

theorem speech_started_barge_in_witness:
  "(let h1 = on_speech_started 100 100 (100001 / 1000) speaking_handler
    in state h1 = INTERRUPTED \<and> total_interruptions h1 = 1
     \<and> interrupted (audio_buffer_pc (playback_controller_ih h1))
     \<and> false_positives (on_speech_ended (10005 / 100) h1) = 1)"
proof -
  have e: "enabled speaking_handler" by (simp add: speaking_handler_def)
  have s: "state speaking_handler = SPEAKING" by (simp add: speaking_handler_def)
  have d: "\<not> set_and_within (last_vad_event_time speaking_handler) 100
               (debounce_ms speaking_handler)"
    by (simp add: speaking_handler_def set_and_within_def)
  have f: "require_confident_speech speaking_handler"
    "min_speech_duration_ms speaking_handler = 200"
    "is_playing_pc (playback_controller_ih speaking_handler)"
    "total_interruptions speaking_handler = 0"
    "false_positives speaking_handler = 0"
    by (simp_all add: speaking_handler_def)
  show ?thesis
    using speech_started_barge_in [OF e s d, of 100 "100001 / 1000" "10005 / 100"] f
    by (simp add: Let_def interrupt_pc_def interrupt_def)
qed

section \<open>Properties of the voice activity detection\<close>












section \<open>Properties of the context building and the conversation history\<close>

lemma slice_from_window: "0 < n \<Longrightarrow> slice_from xs (- n) = spec_last_turns n xs"
  by (auto simp: slice_from_def spec_last_turns_def Let_def max_def nat_diff_distrib
        intro: arg_cong2 [where f = drop])

lemma build_messages_window:
  "0 < n \<Longrightarrow> build_messages n ctx msg = spec_build_messages n ctx msg"
  by (simp add: build_messages_def spec_build_messages_def slice_from_window)

lemma forward_turn_role:
  "forward_turn t = Some m \<Longrightarrow>
     (role m = ''user'' \<or> role m = ''assistant'') \<and> t ''role'' = Some (role m)
     \<and> strip (content m) \<noteq> []"
  by (auto simp: forward_turn_def Let_def split: option.splits if_splits)

text \<open>
  C8 at the window size 0. With \<open>max_history_turns = 0\<close> the slice
  \<open>conversation_context[-0:]\<close> is the whole context: the one recorded turn is forwarded
  before the current message, where the last 0 turns are none and the current message
  alone should go out.
\<close>

theorem build_messages_zero_window:
  "build_messages 0 [[''role'' \<mapsto> ''user'', ''content'' \<mapsto> ''hello'']] ''hi''
     = [\<lparr>role = ''user'', content = ''hello''\<rparr>, \<lparr>role = ''user'', content = ''hi''\<rparr>]
   \<and> spec_build_messages 0 [[''role'' \<mapsto> ''user'', ''content'' \<mapsto> ''hello'']] ''hi''
     = [\<lparr>role = ''user'', content = ''hi''\<rparr>]"
  by (simp add: build_messages_def spec_build_messages_def spec_last_turns_def slice_from_def
        forward_turn_def List.map_filter_simps strip_def rstrip_def is_space_def Let_def)

text \<open>
  C9 as stated fails: after eleven \<open>add_turn\<close> calls on a new conversation the history
  holds ten turns and the first turn recorded is gone.
\<close>

theorem add_turn_append_only_counterexample:
  "(let c = add_turns
              [(''user'', ''a'', 1, 1), (''user'', ''b'', 1, 2), (''user'', ''c'', 1, 3),
               (''user'', ''d'', 1, 4), (''user'', ''e'', 1, 5), (''user'', ''f'', 1, 6),
               (''user'', ''g'', 1, 7), (''user'', ''h'', 1, 8), (''user'', ''i'', 1, 9),
               (''user'', ''j'', 1, 10), (''user'', ''k'', 1, 11)]
              (conversation_context_init ''call'' 0)
    in length (turns c) = 10
     \<and> map turn_text (turns c) = [''b'', ''c'', ''d'', ''e'', ''f'', ''g'', ''h'', ''i'', ''j'', ''k'']
     \<and> new_turn ''user'' ''a'' 1 1 \<notin> set (turns c))"
  by (simp add: add_turn_def conversation_context_init_def slice_from_def new_turn_def Let_def)

text \<open>
  C9, amended. \<open>add_turn\<close> appends the new turn and then keeps the last ten turns only:
  the new turn is the last one of the history; while the history held fewer than ten turns
  every earlier turn stays, unchanged and in order, before it; from ten turns on the
  oldest turns are dropped and the history holds ten.
\<close>

theorem add_turn_keeps_last_ten:
  "turns (add_turn spk text conf now nd nu c)
     = drop (length (turns c) + 1 - 10) (turns c @ [new_turn spk text conf now])
   \<and> last (turns (add_turn spk text conf now nd nu c)) = new_turn spk text conf now
   \<and> (length (turns c) < 10 \<longrightarrow>
        turns (add_turn spk text conf now nd nu c) = turns c @ [new_turn spk text conf now])
   \<and> (length (turns c) \<ge> 10 \<longrightarrow> length (turns (add_turn spk text conf now nd nu c)) = 10)
   \<and> turn_count (add_turn spk text conf now nd nu c)
       = length (turns (add_turn spk text conf now nd nu c))"
  by (auto simp: add_turn_def slice_from_def Let_def max_def nat_diff_distrib nat_add_distrib)

theorem add_turn_keeps_last_ten_witness:
  "turns (add_turn ''user'' ''hello'' 1 5 5 5 (conversation_context_init ''call'' 0))
     = [new_turn ''user'' ''hello'' 1 5]
   \<and> turn_count (add_turn ''user'' ''hello'' 1 5 5 5 (conversation_context_init ''call'' 0)) = 1"
  using add_turn_keeps_last_ten
          [of "''user''" "''hello''" 1 5 5 5 "conversation_context_init ''call'' 0"]
  by (simp add: conversation_context_init_def)


section \<open>Properties of the call admission\<close>


lemma length_alist_update:
  "length (AList.update k v al) = (if k \<in> fst ` set al then length al else Suc (length al))"
  by (induction al) auto

lemma admit_within_limit:
  assumes "registry_within_limit cfg st"
    "\<not> int (webrtc_connections st + length (active_calls st)) \<ge> max_concurrent_calls cfg"
  shows "registry_within_limit cfg (st\<lparr>active_calls := AList.update k v (active_calls st)\<rparr>)"
  using assms by (simp add: registry_within_limit_def distinct_update length_alist_update)

lemma hangup_within_limit:
  assumes "registry_within_limit cfg st"
  shows "registry_within_limit cfg (st\<lparr>active_calls := AList.delete k (active_calls st)\<rparr>)"
proof -
  have "length (AList.delete k (active_calls st)) \<le> length (active_calls st)"
    by (rule length_delete_le)
  then show ?thesis
    using assms by (simp add: registry_within_limit_def distinct_delete)
qed

lemma server_step_within_limit:
  assumes "registry_within_limit cfg st" "0 \<le> max_concurrent_calls cfg"
  shows "registry_within_limit cfg (server_step cfg e st)"
proof (cases e)
  case (IncomingCall dir ccid from_nr to_nr answer_ok new_id now)
  then show ?thesis
    using assms(1) admit_within_limit [OF assms(1)]
    by (simp add: webhook_call_initiated_def Let_def)
next
  case (OutboundCall to_nr greet ctx created new_id now)
  then show ?thesis
    using assms(1) admit_within_limit [OF assms(1)]
    by (simp add: initiate_call_def Let_def split: sum.splits)
next
  case (Hangup ccid)
  then show ?thesis
    using assms(1) hangup_within_limit [OF assms(1)]
    by (simp add: webhook_call_hangup_def)
next
  case (WebrtcChange n)
  then show ?thesis using assms(1) by (simp add: registry_within_limit_def)
next
  case Shutdown
  then show ?thesis using assms(2) by (simp add: registry_within_limit_def)
qed

lemma server_run_within_limit:
  "registry_within_limit cfg st \<Longrightarrow> 0 \<le> max_concurrent_calls cfg \<Longrightarrow>
   registry_within_limit cfg (server_run cfg es st)"
  by (induction es arbitrary: st) (simp_all add: server_step_within_limit)

text \<open>
  C4. When the number of active calls (WebRTC connections plus registry entries) is at
  least \<open>max_concurrent_calls\<close>, the webhook answers an incoming call with the status
  rejected and \<open>_initiate_call\<close> raises an HTTP error (status 429 once the number has
  passed its earlier checks), and both leave the state as it is. With a limit that is not
  negative, the registry holds at most \<open>max_concurrent_calls\<close> entries, with distinct
  keys, after every sequence of events from the empty registry, and every single event
  preserves this.
\<close>

theorem admission_limit:
  "(int (webrtc_connections st + length (active_calls st)) \<ge> max_concurrent_calls cfg \<longrightarrow>
      webhook_call_initiated cfg ''incoming'' ccid from_nr to_nr answer_ok new_id now st
        = (StatusRejected, st)
      \<and> (\<exists>code detail.
            initiate_call cfg to_nr greet ctx created new_id now st
              = (Inl (HTTPException code detail), st))
      \<and> (telnyx_api_key cfg \<noteq> [] \<and> to_nr \<noteq> []
           \<and> list_ex (startswith to_nr) (allowed_prefixes cfg)
           \<and> \<not> list_ex (startswith to_nr) (blocked_prefixes cfg) \<longrightarrow>
           initiate_call cfg to_nr greet ctx created new_id now st
             = (Inl (HTTPException 429 ''Max concurrent calls reached''), st)))
   \<and> (0 \<le> max_concurrent_calls cfg \<longrightarrow>
        registry_within_limit cfg (server_run cfg es server_init)
        \<and> int (length (active_calls (server_run cfg es server_init))) \<le> max_concurrent_calls cfg)
   \<and> (0 \<le> max_concurrent_calls cfg \<and> registry_within_limit cfg st \<longrightarrow>
        registry_within_limit cfg (server_step cfg e st))"
proof -
  have i: "registry_within_limit cfg server_init" if "0 \<le> max_concurrent_calls cfg"
    using that by (simp add: registry_within_limit_def server_init_def)
  have r: "registry_within_limit cfg (server_run cfg es server_init)"
    if "0 \<le> max_concurrent_calls cfg"
    using that i by (simp add: server_run_within_limit)
  have a: "int (webrtc_connections st + length (active_calls st)) \<ge> max_concurrent_calls cfg \<longrightarrow>
      webhook_call_initiated cfg ''incoming'' ccid from_nr to_nr answer_ok new_id now st
        = (StatusRejected, st)"
    by (simp add: webhook_call_initiated_def Let_def)
  have b: "int (webrtc_connections st + length (active_calls st)) \<ge> max_concurrent_calls cfg \<longrightarrow>
     (\<exists>code detail.
            initiate_call cfg to_nr greet ctx created new_id now st
              = (Inl (HTTPException code detail), st))"
    by (simp add: initiate_call_def Let_def)
  have c: "int (webrtc_connections st + length (active_calls st)) \<ge> max_concurrent_calls cfg \<longrightarrow>
     (telnyx_api_key cfg \<noteq> [] \<and> to_nr \<noteq> []
           \<and> list_ex (startswith to_nr) (allowed_prefixes cfg)
           \<and> \<not> list_ex (startswith to_nr) (blocked_prefixes cfg) \<longrightarrow>
           initiate_call cfg to_nr greet ctx created new_id now st
             = (Inl (HTTPException 429 ''Max concurrent calls reached''), st))"
    by (simp add: initiate_call_def Let_def)
  show ?thesis
    using a b c r server_step_within_limit [of cfg st e]
    by (simp add: registry_within_limit_def)
qed

theorem admission_limit_witness:
  "length (active_calls one_live_call) = 1
   \<and> webhook_call_initiated single_call_config ''incoming'' ''cc2'' ''+35840'' ''+35850'' True
        ''id2'' 20 one_live_call = (StatusRejected, one_live_call)
   \<and> initiate_call single_call_config ''+35850'' None ''sales'' (Inr ''cc2'') ''id2'' 20
        one_live_call
        = (Inl (HTTPException 429 ''Max concurrent calls reached''), one_live_call)
   \<and> int (length (active_calls (server_step single_call_config
            (IncomingCall ''incoming'' ''cc2'' ''+35840'' ''+35850'' True ''id2'' 20)
            one_live_call))) \<le> 1"
proof -
  have l: "length (active_calls one_live_call) = 1" "webrtc_connections one_live_call = 0"
    by (simp_all add: one_live_call_def single_call_config_def server_init_def
          webhook_call_initiated_def Let_def)
  have f: "max_concurrent_calls single_call_config = 1"
    "telnyx_api_key single_call_config \<noteq> []"
    "list_ex (startswith ''+35850'') (allowed_prefixes single_call_config)"
    "\<not> list_ex (startswith ''+35850'') (blocked_prefixes single_call_config)"
    by (simp_all add: single_call_config_def startswith_def)
  have w: "registry_within_limit single_call_config one_live_call"
    using l by (simp add: registry_within_limit_def one_live_call_def single_call_config_def
          server_init_def webhook_call_initiated_def Let_def)
  show ?thesis
    using admission_limit [where st = one_live_call and cfg = single_call_config
            and ccid = "''cc2''" and from_nr = "''+35840''" and to_nr = "''+35850''"
            and answer_ok = True and new_id = "''id2''" and now = 20 and greet = None
            and ctx = "''sales''" and created = "Inr ''cc2''" and es = "[]"
            and e = "IncomingCall ''incoming'' ''cc2'' ''+35840'' ''+35850'' True ''id2'' 20"]
          l f w
    by (simp add: registry_within_limit_def)
qed

end
